theory Spec2Isabelle
  imports Complex_Main
begin

section \<open>Values of the bridge\<close>

text \<open>
  The module \<^verbatim>\<open>diff_gaussian_rasterization/__init__.py\<close> marshals tensors and
  scalars between the caller and the native extension \<^verbatim>\<open>_C\<close>. It never
  computes with the numbers it carries: a tensor is a device, a shape and its elements,
  and the only operations the module applies to one are \<^verbatim>\<open>.cpu()\<close> and
  \<^verbatim>\<open>.clone()\<close>. Python floats are carried as reals for the same reason.
\<close>

datatype device = CPU | CUDA

datatype tensor = Tensor (device: device) (shape: "nat list") (elems: "real list")

text \<open>\<^verbatim>\<open>t.cpu()\<close>: the same tensor, resident on the host.\<close>

definition cpu :: "tensor \<Rightarrow> tensor" where
  "cpu t = Tensor CPU (shape t) (elems t)"

text \<open>\<^verbatim>\<open>t.clone()\<close>: a fresh tensor with the same device, shape and elements.\<close>

definition clone :: "tensor \<Rightarrow> tensor" where
  "clone t = Tensor (device t) (shape t) (elems t)"

text \<open>\<^verbatim>\<open>torch.Tensor([])\<close>: the host tensor of shape \<open>[0]\<close>, the "not provided" sentinel.\<close>

definition torch_Tensor_empty :: tensor where
  "torch_Tensor_empty = Tensor CPU [0] []"

text \<open>
  Python is dynamically typed: what a parameter or a tuple slot holds is a tensor, a
  float, an int, a bool or \<^verbatim>\<open>None\<close>.
\<close>

datatype pyval = PTensor tensor | PFloat real | PInt int | PBool bool | PNone

text \<open>
  An exception is its class name and its message. Every exception of the model is an
  instance of \<^verbatim>\<open>Exception\<close> (what the native extension raises through its
  Python binding, what \<^verbatim>\<open>torch.save\<close> raises, and what the facade raises
  itself), so \<^verbatim>\<open>except Exception\<close> catches each of them.
\<close>

datatype pyexn = PyExn (exn_class: string) (exn_msg: string)

record GaussianRasterizationSettings =
  image_height :: int
  image_width :: int
  tanfovx :: real
  tanfovy :: real
  bg :: tensor
  scale_modifier :: real
  cov_offset :: real
  viewmatrix :: tensor
  projmatrix :: tensor
  sh_degree :: int
  prefiltered :: bool
  debug :: bool

section \<open>The native extension and the outside world\<close>

text \<open>
  The extension \<^verbatim>\<open>_C\<close> is not part of the Python sources: its two entry points
  are parameters of the model, functions from the positional argument tuple to either an
  exception or the result tuple (seven components for forward, nine for backward).
\<close>

type_synonym fw_native_result = "int \<times> tensor \<times> tensor \<times> tensor \<times> tensor \<times> tensor \<times> tensor"

type_synonym bw_native_result =
  "tensor \<times> tensor \<times> tensor \<times> tensor \<times> tensor \<times> tensor \<times> tensor \<times> tensor \<times> tensor"

record native =
  C_rasterize_gaussians :: "pyval list \<Rightarrow> pyexn + fw_native_result"
  C_rasterize_gaussians_backward :: "pyval list \<Rightarrow> pyexn + bw_native_result"

text \<open>
  The world outside the interpreter: the files of the working directory (a snapshot file
  holds the tuple that was saved), what has been printed, the log of the calls made into
  the native extension (entry point and argument tuple, oldest first), and, for each path,
  whether writing it fails and with which exception.
\<close>

record world =
  files :: "string \<rightharpoonup> pyval list"
  stdout :: "string list"
  native_calls :: "(string \<times> pyval list) list"
  write_fault :: "string \<Rightarrow> pyexn option"

text \<open>\<^verbatim>\<open>torch.save(obj, f)\<close>: writes the file, or raises and writes nothing.\<close>

definition torch_save :: "pyval list \<Rightarrow> string \<Rightarrow> world \<Rightarrow> pyexn + world" where
  "torch_save obj f w =
     (case write_fault w f of
        Some e \<Rightarrow> Inl e
      | None \<Rightarrow> Inr (w\<lparr>files := (files w)(f \<mapsto> obj)\<rparr>))"

text \<open>\<^verbatim>\<open>print(s)\<close>: one more entry of the output.\<close>

definition print :: "string \<Rightarrow> world \<Rightarrow> world" where
  "print s w = w\<lparr>stdout := stdout w @ [s]\<rparr>"

text \<open>A call into the extension: it is logged, then the entry point decides the outcome.\<close>

definition call_native ::
  "string \<Rightarrow> (pyval list \<Rightarrow> pyexn + 'r) \<Rightarrow> pyval list \<Rightarrow> world \<Rightarrow> world \<times> (pyexn + 'r)" where
  "call_native name entry args w =
     (w\<lparr>native_calls := native_calls w @ [(name, args)]\<rparr>, entry args)"

section \<open>The module\<close>

text \<open>
  Each function below is the body of the Python function of the same name. The
  \<^verbatim>\<open>@jaxtyped\<close> and \<^verbatim>\<open>@typechecked\<close> decorators come from
  libraries outside the repository and check annotations before a body runs; what is
  described here is what a body does once it runs. \<^verbatim>\<open>markVisible\<close> takes no
  part in any property below and is left out.
\<close>

definition cpu_deep_copy_tuple :: "pyval list \<Rightarrow> pyval list" where
  "cpu_deep_copy_tuple input_tuple =
     map (\<lambda>item. case item of PTensor t \<Rightarrow> PTensor (clone (cpu t)) | _ \<Rightarrow> item) input_tuple"

text \<open>
  The autograd context: the two attributes forward sets on it and the tuple given to
  \<^verbatim>\<open>save_for_backward\<close>, in the order it was given.
\<close>

type_synonym saved =
  "pyval \<times> pyval \<times> pyval \<times> pyval \<times> pyval \<times> pyval \<times> pyval \<times> pyval \<times> pyval \<times> pyval \<times> pyval \<times> pyval \<times> pyval"

record ctx =
  ctx_raster_settings :: GaussianRasterizationSettings
  ctx_num_rendered :: int
  saved_tensors :: saved

definition snapshot_fw_msg :: string where
  "snapshot_fw_msg =
     CHR 0x0A # ''An error occured in forward. Please forward snapshot_fw.dump for debugging.''"

definition snapshot_bw_msg :: string where
  "snapshot_bw_msg =
     CHR 0x0A # ''An error occured in backward. Writing snapshot_bw.dump for debugging.'' @ [CHR 0x0A]"

text \<open>
  The argument tuple of the native forward call, as forward builds it ("restructure
  arguments the way that the C++ lib expects them").
\<close>

definition forward_args ::
  "pyval \<Rightarrow> pyval \<Rightarrow> pyval \<Rightarrow> pyval \<Rightarrow> pyval \<Rightarrow> pyval \<Rightarrow> pyval \<Rightarrow> pyval \<Rightarrow>
   GaussianRasterizationSettings \<Rightarrow> pyval list" where
  "forward_args means3D sh colors_precomp opacities scales rotations cov3Ds_precomp camerapos
       raster_settings =
        [PTensor (bg raster_settings),
         means3D,
         colors_precomp,
         opacities,
         scales,
         rotations,
         PFloat (scale_modifier raster_settings),
         PFloat (cov_offset raster_settings),
         cov3Ds_precomp,
         PTensor (viewmatrix raster_settings),
         PTensor (projmatrix raster_settings),
         PFloat (tanfovx raster_settings),
         PFloat (tanfovy raster_settings),
         PInt (image_height raster_settings),
         PInt (image_width raster_settings),
         sh,
         PInt (sh_degree raster_settings),
         camerapos,
         PBool (prefiltered raster_settings),
         PBool (debug raster_settings)]"

text \<open>
  \<^verbatim>\<open>_RasterizeGaussians.forward\<close>. The result is the world after the call and
  either the exception that reaches the caller or the filled context with the returned
  triple \<^verbatim>\<open>(color, radii, depth)\<close>.
\<close>

definition RasterizeGaussians_forward ::
  "native \<Rightarrow> world \<Rightarrow> pyval \<Rightarrow> pyval \<Rightarrow> pyval \<Rightarrow> pyval \<Rightarrow> pyval \<Rightarrow> pyval \<Rightarrow> pyval \<Rightarrow> pyval \<Rightarrow>
   pyval \<Rightarrow> pyval \<Rightarrow> GaussianRasterizationSettings \<Rightarrow>
   world \<times> (pyexn + ctx \<times> tensor \<times> tensor \<times> tensor)" where
  "RasterizeGaussians_forward C w means3D means2D sh colors_precomp opacities scales rotations
       cov3Ds_precomp camerapos camerarot raster_settings =
     (let args = forward_args means3D sh colors_precomp opacities scales rotations cov3Ds_precomp
                   camerapos raster_settings;
        (w1, r) =
          (if debug raster_settings then
             (let cpu_args = cpu_deep_copy_tuple args;
                  (w0, r0) = call_native ''rasterize_gaussians'' (C_rasterize_gaussians C) args w
              in case r0 of
                   Inl ex \<Rightarrow>
                     (case torch_save cpu_args ''snapshot_fw.dump'' w0 of
                        Inl save_ex \<Rightarrow> (w0, Inl save_ex)
                      | Inr w_saved \<Rightarrow> (print snapshot_fw_msg w_saved, Inl ex))
                 | Inr res \<Rightarrow> (w0, Inr res))
           else call_native ''rasterize_gaussians'' (C_rasterize_gaussians C) args w)
      in case r of
           Inl ex \<Rightarrow> (w1, Inl ex)
         | Inr (num_rendered, color, radii, geomBuffer, binningBuffer, imgBuffer, depth) \<Rightarrow>
             (w1,
              Inr (\<lparr>ctx_raster_settings = raster_settings,
                    ctx_num_rendered = num_rendered,
                    saved_tensors =
                      (colors_precomp, means3D, scales, rotations, cov3Ds_precomp,
                       PTensor radii, sh, PTensor geomBuffer, PTensor binningBuffer,
                       PTensor imgBuffer, camerapos, camerarot, PTensor depth)\<rparr>,
                   color, radii, depth)))"

text \<open>
  \<^verbatim>\<open>rasterize_gaussians\<close>: \<^verbatim>\<open>_RasterizeGaussians.apply\<close> runs forward on a
  fresh context with the same positional arguments.
\<close>

definition rasterize_gaussians ::
  "native \<Rightarrow> world \<Rightarrow> pyval \<Rightarrow> pyval \<Rightarrow> pyval \<Rightarrow> pyval \<Rightarrow> pyval \<Rightarrow> pyval \<Rightarrow> pyval \<Rightarrow> pyval \<Rightarrow>
   pyval \<Rightarrow> pyval \<Rightarrow> GaussianRasterizationSettings \<Rightarrow>
   world \<times> (pyexn + ctx \<times> tensor \<times> tensor \<times> tensor)" where
  "rasterize_gaussians C w means3D means2D sh colors_precomp opacities scales rotations
       cov3Ds_precomp camerapos camerarot raster_settings =
     RasterizeGaussians_forward C w means3D means2D sh colors_precomp opacities scales rotations
       cov3Ds_precomp camerapos camerarot raster_settings"

text \<open>
  The argument tuple of the native backward call, as backward builds it from the context
  (its attributes and the unpacked \<^verbatim>\<open>ctx.saved_tensors\<close>) and the incoming
  gradients.
\<close>

definition backward_args :: "ctx \<Rightarrow> tensor \<Rightarrow> tensor \<Rightarrow> pyval list" where
  "backward_args ctx grad_out_color grad_out_depth =
     (let num_rendered = ctx_num_rendered ctx;
          raster_settings = ctx_raster_settings ctx
      in case saved_tensors ctx of
           (colors_precomp, means3D, scales, rotations, cov3Ds_precomp, radii, sh, geomBuffer,
            binningBuffer, imgBuffer, camerapos, camerarot, depth) \<Rightarrow>
        [PTensor (bg raster_settings),
         means3D,
         radii,
         colors_precomp,
         scales,
         rotations,
         PFloat (scale_modifier raster_settings),
         PFloat (cov_offset raster_settings),
         cov3Ds_precomp,
         PTensor (viewmatrix raster_settings),
         PTensor (projmatrix raster_settings),
         PFloat (tanfovx raster_settings),
         PFloat (tanfovy raster_settings),
         PTensor grad_out_color,
         PTensor grad_out_depth,
         sh,
         PInt (sh_degree raster_settings),
         camerapos,
         geomBuffer,
         PInt num_rendered,
         binningBuffer,
         imgBuffer,
         PBool (debug raster_settings)])"

text \<open>
  \<^verbatim>\<open>_RasterizeGaussians.backward\<close>. The result is the world after the call and
  either the exception that reaches the caller or the tuple \<^verbatim>\<open>grads\<close>.
\<close>

definition RasterizeGaussians_backward ::
  "native \<Rightarrow> world \<Rightarrow> ctx \<Rightarrow> tensor \<Rightarrow> tensor \<Rightarrow> tensor \<Rightarrow> world \<times> (pyexn + pyval list)" where
  "RasterizeGaussians_backward C w ctx grad_out_color grad_out_radii grad_out_depth =
     (let raster_settings = ctx_raster_settings ctx;
          args = backward_args ctx grad_out_color grad_out_depth;
        (w1, r) =
          (if debug raster_settings then
             (let cpu_args = cpu_deep_copy_tuple args;
                  (w0, r0) = call_native ''rasterize_gaussians_backward''
                               (C_rasterize_gaussians_backward C) args w
              in case r0 of
                   Inl ex \<Rightarrow>
                     (case torch_save cpu_args ''snapshot_bw.dump'' w0 of
                        Inl save_ex \<Rightarrow> (w0, Inl save_ex)
                      | Inr w_saved \<Rightarrow> (print snapshot_bw_msg w_saved, Inl ex))
                 | Inr res \<Rightarrow> (w0, Inr res))
           else call_native ''rasterize_gaussians_backward''
                  (C_rasterize_gaussians_backward C) args w)
      in case r of
           Inl ex \<Rightarrow> (w1, Inl ex)
         | Inr (grad_means2D, grad_colors_precomp, grad_opacities, grad_means3D,
                grad_cov3Ds_precomp, grad_sh, grad_scales, grad_rotations, grad_camerarot) \<Rightarrow>
             (w1,
              Inr [PTensor grad_means3D,
                   PTensor grad_means2D,
                   PTensor grad_sh,
                   PTensor grad_colors_precomp,
                   PTensor grad_opacities,
                   PTensor grad_scales,
                   PTensor grad_rotations,
                   PTensor grad_cov3Ds_precomp,
                   PNone,
                   PTensor grad_camerarot,
                   PNone]))"

text \<open>The two exceptions the facade raises itself.\<close>

definition color_contract_violation :: pyexn where
  "color_contract_violation =
     PyExn ''Exception'' ''Please provide excatly one of either SHs or precomputed colors!''"

definition covariance_contract_violation :: pyexn where
  "covariance_contract_violation =
     PyExn ''Exception''
       ''Please provide exactly one of either scale/rotation pair or precomputed 3D covariance!''"

text \<open>
  \<^verbatim>\<open>GaussianRasterizer.forward\<close>; \<open>raster_settings\<close> is
  \<^verbatim>\<open>self.raster_settings\<close>. An omitted keyword argument arrives as \<open>PNone\<close>.
\<close>

definition GaussianRasterizer_forward ::
  "native \<Rightarrow> GaussianRasterizationSettings \<Rightarrow> world \<Rightarrow> pyval \<Rightarrow> pyval \<Rightarrow> pyval \<Rightarrow> pyval \<Rightarrow>
   pyval \<Rightarrow> pyval \<Rightarrow> pyval \<Rightarrow> pyval \<Rightarrow> pyval \<Rightarrow> pyval \<Rightarrow>
   world \<times> (pyexn + ctx \<times> tensor \<times> tensor \<times> tensor)" where
  "GaussianRasterizer_forward C raster_settings w means3D means2D opacities shs colors_precomp
       scales rotations cov3D_precomp camerapos camerarot =
     (if (shs = PNone \<and> colors_precomp = PNone) \<or> (shs \<noteq> PNone \<and> colors_precomp \<noteq> PNone)
      then (w, Inl color_contract_violation)
      else if ((scales = PNone \<or> rotations = PNone) \<and> cov3D_precomp = PNone) \<or>
              ((scales \<noteq> PNone \<or> rotations \<noteq> PNone) \<and> cov3D_precomp \<noteq> PNone)
      then (w, Inl covariance_contract_violation)
      else
        (let shs = (if shs = PNone then PTensor torch_Tensor_empty else shs);
             colors_precomp =
               (if colors_precomp = PNone then PTensor torch_Tensor_empty else colors_precomp);
             scales = (if scales = PNone then PTensor torch_Tensor_empty else scales);
             rotations = (if rotations = PNone then PTensor torch_Tensor_empty else rotations);
             cov3D_precomp =
               (if cov3D_precomp = PNone then PTensor torch_Tensor_empty else cov3D_precomp);
             camerapos = (if camerapos = PNone then PTensor torch_Tensor_empty else camerapos);
             camerarot = (if camerarot = PNone then PTensor torch_Tensor_empty else camerarot)
         in rasterize_gaussians C w means3D means2D shs colors_precomp opacities scales rotations
              cov3D_precomp camerapos camerarot raster_settings))"

section \<open>Notions used to state the properties\<close>

text \<open>What a forward call hands back to its caller: nothing when it raises.\<close>

definition forward_outputs ::
  "pyexn + ctx \<times> tensor \<times> tensor \<times> tensor \<Rightarrow> (tensor \<times> tensor \<times> tensor) option" where
  "forward_outputs r = (case r of Inl ex \<Rightarrow> None | Inr (ctx, out) \<Rightarrow> Some out)"

text \<open>A tuple entry that holds no device memory.\<close>

definition host_resident :: "pyval \<Rightarrow> bool" where
  "host_resident v = (case v of PTensor t \<Rightarrow> device t = CPU | _ \<Rightarrow> True)"

text \<open>Two tuple entries that agree up to the device a tensor lives on.\<close>

definition same_data :: "pyval \<Rightarrow> pyval \<Rightarrow> bool" where
  "same_data a b =
     (case a of
        PTensor s \<Rightarrow> (case b of PTensor t \<Rightarrow> shape s = shape t \<and> elems s = elems t | _ \<Rightarrow> False)
      | _ \<Rightarrow> a = b)"

text \<open>
  What the facade passes on for an optional argument: the argument itself, or the empty
  tensor when it was omitted.
\<close>

definition or_sentinel :: "pyval \<Rightarrow> pyval" where
  "or_sentinel v = (if v = PNone then PTensor torch_Tensor_empty else v)"

section \<open>Concrete inputs\<close>

text \<open>
  Small concrete tensors, settings, worlds and native entry points, on which the
  properties below are evaluated.
\<close>

definition tn :: "nat \<Rightarrow> tensor" where
  "tn k = Tensor CUDA [k] [real k]"

definition ex_settings :: "bool \<Rightarrow> GaussianRasterizationSettings" where
  "ex_settings dbg =
     \<lparr>image_height = 2, image_width = 3, tanfovx = 1, tanfovy = 1, bg = tn 20,
      scale_modifier = 1, cov_offset = 0, viewmatrix = tn 21, projmatrix = tn 22,
      sh_degree = 0, prefiltered = False, debug = dbg\<rparr>"

definition ex_world :: "pyexn option \<Rightarrow> world" where
  "ex_world fault =
     \<lparr>files = Map.empty, stdout = [], native_calls = [], write_fault = (\<lambda>path. fault)\<rparr>"

definition native_error :: pyexn where
  "native_error = PyExn ''RuntimeError'' ''CUDA error: an illegal memory access was encountered''"

definition disk_error :: pyexn where
  "disk_error = PyExn ''OSError'' ''[Errno 30] Read-only file system''"

definition ex_native_ok :: native where
  "ex_native_ok =
     \<lparr>C_rasterize_gaussians = (\<lambda>args. Inr (7, tn 1, tn 2, tn 3, tn 4, tn 5, tn 6)),
      C_rasterize_gaussians_backward =
        (\<lambda>args. Inr (tn 11, tn 12, tn 13, tn 14, tn 15, tn 16, tn 17, tn 18, tn 19))\<rparr>"

definition ex_native_failing :: native where
  "ex_native_failing =
     \<lparr>C_rasterize_gaussians = (\<lambda>args. Inl native_error),
      C_rasterize_gaussians_backward = (\<lambda>args. Inl native_error)\<rparr>"

definition ex_native_flag :: native where
  "ex_native_flag =
     \<lparr>C_rasterize_gaussians =
        (\<lambda>args. if last args = PBool True
                 then Inr (7, tn 1, tn 2, tn 3, tn 4, tn 5, tn 6)
                 else Inr (7, tn 0, tn 2, tn 3, tn 4, tn 5, tn 6)),
      C_rasterize_gaussians_backward =
        (\<lambda>args. Inr (tn 11, tn 12, tn 13, tn 14, tn 15, tn 16, tn 17, tn 18, tn 19))\<rparr>"

definition ex_ctx :: "bool \<Rightarrow> ctx" where
  "ex_ctx dbg =
     \<lparr>ctx_raster_settings = ex_settings dbg, ctx_num_rendered = 7,
      saved_tensors =
        (PTensor torch_Tensor_empty, PTensor (tn 30), PTensor (tn 31), PTensor (tn 32),
         PTensor torch_Tensor_empty, PTensor (tn 2), PTensor (tn 33), PTensor (tn 3),
         PTensor (tn 4), PTensor (tn 5), PTensor torch_Tensor_empty,
         PTensor torch_Tensor_empty, PTensor (tn 6))\<rparr>"

definition ex_means3D :: pyval where "ex_means3D = PTensor (tn 30)"
definition ex_means2D :: pyval where "ex_means2D = PTensor (tn 34)"
definition ex_sh :: pyval where "ex_sh = PTensor (tn 33)"
definition ex_opacities :: pyval where "ex_opacities = PTensor (tn 35)"
definition ex_scales :: pyval where "ex_scales = PTensor (tn 31)"
definition ex_rotations :: pyval where "ex_rotations = PTensor (tn 32)"
definition ex_cov3D :: pyval where "ex_cov3D = PTensor (tn 36)"
definition ex_colors :: pyval where "ex_colors = PTensor (tn 37)"
definition absent :: pyval where "absent = PTensor torch_Tensor_empty"

definition ex_grads :: "pyval list" where
  "ex_grads =
     [PTensor (tn 14), PTensor (tn 11), PTensor (tn 16), PTensor (tn 12), PTensor (tn 13),
      PTensor (tn 17), PTensor (tn 18), PTensor (tn 15), PNone, PTensor (tn 19), PNone]"

text \<open>
  The host copy of the forward argument tuple of the concrete call used below
  (\<open>tn k\<close> moved to the host, the scalars as they are).
\<close>

definition ex_fw_snapshot :: "pyval list" where
  "ex_fw_snapshot =
     [PTensor (Tensor CPU [20] [20]), PTensor (Tensor CPU [30] [30]), PTensor (Tensor CPU [0] []),
      PTensor (Tensor CPU [35] [35]), PTensor (Tensor CPU [31] [31]),
      PTensor (Tensor CPU [32] [32]), PFloat 1, PFloat 0, PTensor (Tensor CPU [0] []),
      PTensor (Tensor CPU [21] [21]), PTensor (Tensor CPU [22] [22]), PFloat 1, PFloat 1,
      PInt 2, PInt 3, PTensor (Tensor CPU [33] [33]), PInt 0, PTensor (Tensor CPU [0] []),
      PBool False, PBool True]"

section \<open>Auxiliary facts\<close>

lemmas ex_defs = tn_def ex_settings_def ex_world_def native_error_def disk_error_def
  ex_native_ok_def ex_native_failing_def ex_native_flag_def ex_ctx_def ex_means3D_def
  ex_means2D_def ex_sh_def ex_opacities_def ex_scales_def ex_rotations_def ex_cov3D_def
  ex_colors_def absent_def ex_grads_def ex_fw_snapshot_def torch_Tensor_empty_def

lemmas model_defs = RasterizeGaussians_forward_def RasterizeGaussians_backward_def
  forward_args_def backward_args_def call_native_def torch_save_def print_def
  cpu_deep_copy_tuple_def cpu_def clone_def Let_def

lemma forward_logs_call:
  "native_calls (fst (RasterizeGaussians_forward C w means3D means2D sh colors_precomp opacities
       scales rotations cov3Ds_precomp camerapos camerarot raster_settings)) =
   native_calls w @ [(''rasterize_gaussians'',
      forward_args means3D sh colors_precomp opacities scales rotations cov3Ds_precomp camerapos
        raster_settings)]"
  by (simp add: RasterizeGaussians_forward_def Let_def call_native_def torch_save_def print_def
      split: sum.splits option.splits prod.splits)

lemma backward_logs_call:
  "native_calls (fst (RasterizeGaussians_backward C w ctx gc gr gd)) =
   native_calls w @ [(''rasterize_gaussians_backward'', backward_args ctx gc gd)]"
  by (simp add: RasterizeGaussians_backward_def Let_def call_native_def torch_save_def print_def
      split: sum.splits option.splits prod.splits)


lemma cpu_deep_copy_host: "list_all host_resident (cpu_deep_copy_tuple xs)"
  by (induction xs) (auto simp: cpu_deep_copy_tuple_def host_resident_def cpu_def clone_def split: pyval.splits)

lemma cpu_deep_copy_same: "list_all2 same_data xs (cpu_deep_copy_tuple xs)"
  by (induction xs) (auto simp: cpu_deep_copy_tuple_def same_data_def cpu_def clone_def split: pyval.splits)

lemma forward_native_fails_nodebug:
  assumes "\<not> debug raster_settings"
    and "C_rasterize_gaussians C (forward_args means3D sh colors_precomp opacities scales rotations
           cov3Ds_precomp camerapos raster_settings) = Inl ex"
  shows "RasterizeGaussians_forward C w means3D means2D sh colors_precomp opacities
       scales rotations cov3Ds_precomp camerapos camerarot raster_settings =
     (w\<lparr>native_calls := native_calls w @ [(''rasterize_gaussians'',
          forward_args means3D sh colors_precomp opacities scales rotations cov3Ds_precomp camerapos
            raster_settings)]\<rparr>, Inl ex)"
  using assms by (simp add: RasterizeGaussians_forward_def Let_def call_native_def)

lemma forward_native_fails_debug:
  assumes "debug raster_settings"
    and "C_rasterize_gaussians C (forward_args means3D sh colors_precomp opacities scales rotations
           cov3Ds_precomp camerapos raster_settings) = Inl ex"
  shows "RasterizeGaussians_forward C w means3D means2D sh colors_precomp opacities
       scales rotations cov3Ds_precomp camerapos camerarot raster_settings =
     (case write_fault w ''snapshot_fw.dump'' of
        None \<Rightarrow>
          (w\<lparr>native_calls := native_calls w @ [(''rasterize_gaussians'',
                forward_args means3D sh colors_precomp opacities scales rotations cov3Ds_precomp
                  camerapos raster_settings)],
             files := (files w)(''snapshot_fw.dump'' \<mapsto>
                cpu_deep_copy_tuple (forward_args means3D sh colors_precomp opacities scales
                  rotations cov3Ds_precomp camerapos raster_settings)),
             stdout := stdout w @ [snapshot_fw_msg]\<rparr>, Inl ex)
      | Some save_ex \<Rightarrow>
          (w\<lparr>native_calls := native_calls w @ [(''rasterize_gaussians'',
                forward_args means3D sh colors_precomp opacities scales rotations cov3Ds_precomp
                  camerapos raster_settings)]\<rparr>, Inl save_ex))"
  using assms
  by (simp add: RasterizeGaussians_forward_def Let_def call_native_def torch_save_def print_def
      split: option.splits)

lemma backward_native_fails_nodebug:
  assumes "\<not> debug (ctx_raster_settings ctx)"
    and "C_rasterize_gaussians_backward C (backward_args ctx gc gd) = Inl ex"
  shows "RasterizeGaussians_backward C w ctx gc gr gd =
     (w\<lparr>native_calls := native_calls w @
          [(''rasterize_gaussians_backward'', backward_args ctx gc gd)]\<rparr>, Inl ex)"
  using assms by (simp add: RasterizeGaussians_backward_def Let_def call_native_def)

lemma backward_native_fails_debug:
  assumes "debug (ctx_raster_settings ctx)"
    and "C_rasterize_gaussians_backward C (backward_args ctx gc gd) = Inl ex"
  shows "RasterizeGaussians_backward C w ctx gc gr gd =
     (case write_fault w ''snapshot_bw.dump'' of
        None \<Rightarrow>
          (w\<lparr>native_calls := native_calls w @
                [(''rasterize_gaussians_backward'', backward_args ctx gc gd)],
             files := (files w)(''snapshot_bw.dump'' \<mapsto>
                cpu_deep_copy_tuple (backward_args ctx gc gd)),
             stdout := stdout w @ [snapshot_bw_msg]\<rparr>, Inl ex)
      | Some save_ex \<Rightarrow>
          (w\<lparr>native_calls := native_calls w @
                [(''rasterize_gaussians_backward'', backward_args ctx gc gd)]\<rparr>, Inl save_ex))"
  using assms
  by (simp add: RasterizeGaussians_backward_def Let_def call_native_def torch_save_def print_def
      split: option.splits)

lemma forward_native_returns:
  assumes "C_rasterize_gaussians C (forward_args means3D sh colors_precomp opacities scales rotations
           cov3Ds_precomp camerapos raster_settings) =
           Inr (num_rendered, color, radii, geomBuffer, binningBuffer, imgBuffer, depth)"
  shows "RasterizeGaussians_forward C w means3D means2D sh colors_precomp opacities
       scales rotations cov3Ds_precomp camerapos camerarot raster_settings =
     (w\<lparr>native_calls := native_calls w @ [(''rasterize_gaussians'',
          forward_args means3D sh colors_precomp opacities scales rotations cov3Ds_precomp camerapos
            raster_settings)]\<rparr>,
      Inr (\<lparr>ctx_raster_settings = raster_settings,
            ctx_num_rendered = num_rendered,
            saved_tensors =
              (colors_precomp, means3D, scales, rotations, cov3Ds_precomp,
               PTensor radii, sh, PTensor geomBuffer, PTensor binningBuffer,
               PTensor imgBuffer, camerapos, camerarot, PTensor depth)\<rparr>,
           color, radii, depth))"
  using assms by (simp add: RasterizeGaussians_forward_def Let_def call_native_def)

lemma backward_native_returns:
  assumes "C_rasterize_gaussians_backward C (backward_args ctx gc gd) =
           Inr (grad_means2D, grad_colors_precomp, grad_opacities, grad_means3D,
                grad_cov3Ds_precomp, grad_sh, grad_scales, grad_rotations, grad_camerarot)"
  shows "RasterizeGaussians_backward C w ctx gc gr gd =
     (w\<lparr>native_calls := native_calls w @
          [(''rasterize_gaussians_backward'', backward_args ctx gc gd)]\<rparr>,
      Inr [PTensor grad_means3D, PTensor grad_means2D, PTensor grad_sh,
           PTensor grad_colors_precomp, PTensor grad_opacities, PTensor grad_scales,
           PTensor grad_rotations, PTensor grad_cov3Ds_precomp, PNone,
           PTensor grad_camerarot, PNone])"
  using assms by (simp add: RasterizeGaussians_backward_def Let_def call_native_def)

section \<open>Properties\<close>





text \<open>
  C2. A call of the facade in which \<open>shs\<close> and \<open>colors_precomp\<close> are both supplied,
  or both omitted, raises the colour contract violation and leaves the world as it was:
  nothing is written, printed or sent to the native extension. A call in which the
  scale/rotation pair and \<open>cov3D_precomp\<close> are both supplied, or all three are omitted,
  is rejected in the same way, with the covariance contract violation, or with the
  colour one when the colour pair is invalid as well (that check runs first).
\<close>

theorem facade_rejects_bad_pairs:
  "((shs = PNone \<and> colors_precomp = PNone) \<or> (shs \<noteq> PNone \<and> colors_precomp \<noteq> PNone) \<longrightarrow>
      GaussianRasterizer_forward C raster_settings w means3D means2D opacities shs colors_precomp
        scales rotations cov3D_precomp camerapos camerarot = (w, Inl color_contract_violation)) \<and>
   ((scales \<noteq> PNone \<and> rotations \<noteq> PNone \<and> cov3D_precomp \<noteq> PNone) \<or>
    (scales = PNone \<and> rotations = PNone \<and> cov3D_precomp = PNone) \<longrightarrow>
      GaussianRasterizer_forward C raster_settings w means3D means2D opacities shs colors_precomp
        scales rotations cov3D_precomp camerapos camerarot =
      (w, Inl (if (shs = PNone \<and> colors_precomp = PNone) \<or> (shs \<noteq> PNone \<and> colors_precomp \<noteq> PNone)
               then color_contract_violation else covariance_contract_violation)))"
  by (auto simp: GaussianRasterizer_forward_def)

text \<open>Four rejected calls: both colours, no colour, both covariances, no covariance.\<close>

theorem facade_rejects_bad_pairs_witness:
  "GaussianRasterizer_forward ex_native_ok (ex_settings False) (ex_world None)
     ex_means3D ex_means2D ex_opacities ex_sh ex_colors ex_scales ex_rotations PNone PNone PNone
     = (ex_world None, Inl color_contract_violation) \<and>
   GaussianRasterizer_forward ex_native_ok (ex_settings False) (ex_world None)
     ex_means3D ex_means2D ex_opacities PNone PNone ex_scales ex_rotations PNone PNone PNone
     = (ex_world None, Inl color_contract_violation) \<and>
   GaussianRasterizer_forward ex_native_ok (ex_settings False) (ex_world None)
     ex_means3D ex_means2D ex_opacities ex_sh PNone ex_scales ex_rotations ex_cov3D PNone PNone
     = (ex_world None, Inl covariance_contract_violation) \<and>
   GaussianRasterizer_forward ex_native_ok (ex_settings False) (ex_world None)
     ex_means3D ex_means2D ex_opacities ex_sh PNone PNone PNone PNone PNone PNone
     = (ex_world None, Inl covariance_contract_violation) \<and>
   native_calls (ex_world None) = []"
  using
    facade_rejects_bad_pairs [of ex_sh ex_colors ex_native_ok "ex_settings False" "ex_world None"
      ex_means3D ex_means2D ex_opacities ex_scales ex_rotations PNone PNone PNone]
    facade_rejects_bad_pairs [of PNone PNone ex_native_ok "ex_settings False" "ex_world None"
      ex_means3D ex_means2D ex_opacities ex_scales ex_rotations PNone PNone PNone]
    facade_rejects_bad_pairs [of ex_sh PNone ex_native_ok "ex_settings False" "ex_world None"
      ex_means3D ex_means2D ex_opacities ex_scales ex_rotations ex_cov3D PNone PNone]
    facade_rejects_bad_pairs [of ex_sh PNone ex_native_ok "ex_settings False" "ex_world None"
      ex_means3D ex_means2D ex_opacities PNone PNone PNone PNone PNone]
  by (simp add: ex_sh_def ex_colors_def ex_scales_def ex_rotations_def ex_cov3D_def ex_world_def)

text \<open>
  C3 (as amended). Let the native call raise \<open>ex\<close>. With debug enabled and the
  snapshot file writable, forward ends with the call logged, the host copy of the
  argument tuple it passed stored under \<^verbatim>\<open>snapshot_fw.dump\<close>, the diagnostic
  printed, and \<open>ex\<close> itself raised; backward does the same with
  \<^verbatim>\<open>snapshot_bw.dump\<close> and its own message. With debug disabled, \<open>ex\<close>
  reaches the caller and the only change to the world is the logged call: no file is
  written and nothing is printed. The copy is made from the arguments as they were passed;
  every tensor in it is on the host and it agrees with the arguments in everything but
  the device.
\<close>

theorem snapshot_on_native_failure:
  fixes raster_settings :: GaussianRasterizationSettings and ctx :: ctx
    and means3D sh colors_precomp opacities scales rotations cov3Ds_precomp camerapos :: pyval
    and grad_out_color grad_out_depth :: tensor
  defines "fw_args \<equiv> forward_args means3D sh colors_precomp opacities scales rotations
                        cov3Ds_precomp camerapos raster_settings"
  defines "bw_args \<equiv> backward_args ctx grad_out_color grad_out_depth"
  shows
    "(debug raster_settings \<and> C_rasterize_gaussians C fw_args = Inl ex \<and>
      write_fault w ''snapshot_fw.dump'' = None \<longrightarrow>
        RasterizeGaussians_forward C w means3D means2D sh colors_precomp opacities scales
          rotations cov3Ds_precomp camerapos camerarot raster_settings =
        (w\<lparr>native_calls := native_calls w @ [(''rasterize_gaussians'', fw_args)],
           files := (files w)(''snapshot_fw.dump'' \<mapsto> cpu_deep_copy_tuple fw_args),
           stdout := stdout w @ [snapshot_fw_msg]\<rparr>,
         Inl ex)) \<and>
     (\<not> debug raster_settings \<and> C_rasterize_gaussians C fw_args = Inl ex \<longrightarrow>
        RasterizeGaussians_forward C w means3D means2D sh colors_precomp opacities scales
          rotations cov3Ds_precomp camerapos camerarot raster_settings =
        (w\<lparr>native_calls := native_calls w @ [(''rasterize_gaussians'', fw_args)]\<rparr>, Inl ex)) \<and>
     (debug (ctx_raster_settings ctx) \<and> C_rasterize_gaussians_backward C bw_args = Inl ex \<and>
      write_fault w ''snapshot_bw.dump'' = None \<longrightarrow>
        RasterizeGaussians_backward C w ctx grad_out_color grad_out_radii grad_out_depth =
        (w\<lparr>native_calls := native_calls w @ [(''rasterize_gaussians_backward'', bw_args)],
           files := (files w)(''snapshot_bw.dump'' \<mapsto> cpu_deep_copy_tuple bw_args),
           stdout := stdout w @ [snapshot_bw_msg]\<rparr>,
         Inl ex)) \<and>
     (\<not> debug (ctx_raster_settings ctx) \<and> C_rasterize_gaussians_backward C bw_args = Inl ex \<longrightarrow>
        RasterizeGaussians_backward C w ctx grad_out_color grad_out_radii grad_out_depth =
        (w\<lparr>native_calls := native_calls w @ [(''rasterize_gaussians_backward'', bw_args)]\<rparr>,
         Inl ex)) \<and>
     list_all host_resident (cpu_deep_copy_tuple fw_args) \<and>
     list_all2 same_data fw_args (cpu_deep_copy_tuple fw_args) \<and>
     list_all host_resident (cpu_deep_copy_tuple bw_args) \<and>
     list_all2 same_data bw_args (cpu_deep_copy_tuple bw_args)"
  unfolding fw_args_def bw_args_def
  by (simp add: forward_native_fails_debug forward_native_fails_nodebug
      backward_native_fails_debug backward_native_fails_nodebug
      cpu_deep_copy_host cpu_deep_copy_same)

text \<open>A failing native extension, with debug on and off, on a writable directory.\<close>

theorem snapshot_on_native_failure_witness:
  "debug (ex_settings True) \<and> \<not> debug (ex_settings False) \<and>
   write_fault (ex_world None) ''snapshot_fw.dump'' = None \<and>
   snd (RasterizeGaussians_forward ex_native_failing (ex_world None) ex_means3D ex_means2D ex_sh
      absent ex_opacities ex_scales ex_rotations absent absent absent (ex_settings True)) =
     Inl native_error \<and>
   files (fst (RasterizeGaussians_forward ex_native_failing (ex_world None) ex_means3D ex_means2D
      ex_sh absent ex_opacities ex_scales ex_rotations absent absent absent (ex_settings True)))
      ''snapshot_fw.dump'' = Some ex_fw_snapshot \<and>
   stdout (fst (RasterizeGaussians_forward ex_native_failing (ex_world None) ex_means3D ex_means2D
      ex_sh absent ex_opacities ex_scales ex_rotations absent absent absent (ex_settings True))) =
     [snapshot_fw_msg] \<and>
   RasterizeGaussians_forward ex_native_failing (ex_world None) ex_means3D ex_means2D ex_sh
      absent ex_opacities ex_scales ex_rotations absent absent absent (ex_settings False) =
     ((ex_world None)\<lparr>native_calls :=
        [(''rasterize_gaussians'',
          forward_args ex_means3D ex_sh absent ex_opacities ex_scales ex_rotations absent absent
            (ex_settings False))]\<rparr>,
      Inl native_error) \<and>
   snd (RasterizeGaussians_backward ex_native_failing (ex_world None) (ex_ctx True)
      (tn 40) (tn 41) (tn 42)) = Inl native_error \<and>
   files (fst (RasterizeGaussians_backward ex_native_failing (ex_world None) (ex_ctx True)
      (tn 40) (tn 41) (tn 42))) ''snapshot_bw.dump'' =
     Some (cpu_deep_copy_tuple (backward_args (ex_ctx True) (tn 40) (tn 42))) \<and>
   stdout (fst (RasterizeGaussians_backward ex_native_failing (ex_world None) (ex_ctx True)
      (tn 40) (tn 41) (tn 42))) = [snapshot_bw_msg] \<and>
   RasterizeGaussians_backward ex_native_failing (ex_world None) (ex_ctx False)
      (tn 40) (tn 41) (tn 42) =
     ((ex_world None)\<lparr>native_calls :=
        [(''rasterize_gaussians_backward'', backward_args (ex_ctx False) (tn 40) (tn 42))]\<rparr>,
      Inl native_error)"
proof -
  have d: "debug (ex_settings True)" "\<not> debug (ex_settings False)"
    "debug (ctx_raster_settings (ex_ctx True))" "\<not> debug (ctx_raster_settings (ex_ctx False))"
    by (simp_all add: ex_settings_def ex_ctx_def)
  have f: "write_fault (ex_world None) p = None" "files (ex_world None) = Map.empty"
    "stdout (ex_world None) = []" "native_calls (ex_world None) = []" for p
    by (simp_all add: ex_world_def)
  have n: "C_rasterize_gaussians ex_native_failing a = Inl native_error"
    "C_rasterize_gaussians_backward ex_native_failing a = Inl native_error" for a
    by (simp_all add: ex_native_failing_def)
  have s: "cpu_deep_copy_tuple (forward_args ex_means3D ex_sh absent ex_opacities ex_scales
      ex_rotations absent absent (ex_settings True)) = ex_fw_snapshot"
    by (simp add: ex_fw_snapshot_def cpu_deep_copy_tuple_def forward_args_def cpu_def clone_def
        ex_defs)
  note t1 = snapshot_on_native_failure [where raster_settings = "ex_settings True" and
      ctx = "ex_ctx True" and w = "ex_world None" and ex = native_error and C = ex_native_failing and means3D = ex_means3D and
      means2D = ex_means2D and sh = ex_sh and colors_precomp = absent and opacities = ex_opacities
      and scales = ex_scales and rotations = ex_rotations and cov3Ds_precomp = absent and
      camerapos = absent and camerarot = absent and grad_out_color = "tn 40" and
      grad_out_radii = "tn 41" and grad_out_depth = "tn 42"]
  note t2 = snapshot_on_native_failure [where raster_settings = "ex_settings False" and
      ctx = "ex_ctx False" and w = "ex_world None" and ex = native_error and C = ex_native_failing and means3D = ex_means3D and
      means2D = ex_means2D and sh = ex_sh and colors_precomp = absent and opacities = ex_opacities
      and scales = ex_scales and rotations = ex_rotations and cov3Ds_precomp = absent and
      camerapos = absent and camerarot = absent and grad_out_color = "tn 40" and
      grad_out_radii = "tn 41" and grad_out_depth = "tn 42"]
  from t1 t2 show ?thesis
    by (simp add: d f n s)
qed

text \<open>
  C3 as first stated promises the snapshot, the diagnostic and the original exception on
  every failing call in debug mode. When the file cannot be written,
  \<^verbatim>\<open>torch.save\<close> raises inside the handler: no file appears, nothing is
  printed, and the caller sees the write error.
\<close>

theorem snapshot_write_failure_counterexample:
  "debug (ex_settings True) \<and>
   C_rasterize_gaussians ex_native_failing
     (forward_args ex_means3D ex_sh absent ex_opacities ex_scales ex_rotations absent absent
        (ex_settings True)) = Inl native_error \<and>
   write_fault (ex_world (Some disk_error)) ''snapshot_fw.dump'' = Some disk_error \<and>
   snd (RasterizeGaussians_forward ex_native_failing (ex_world (Some disk_error)) ex_means3D
      ex_means2D ex_sh absent ex_opacities ex_scales ex_rotations absent absent absent
      (ex_settings True)) = Inl disk_error \<and>
   disk_error \<noteq> native_error \<and>
   files (fst (RasterizeGaussians_forward ex_native_failing (ex_world (Some disk_error)) ex_means3D
      ex_means2D ex_sh absent ex_opacities ex_scales ex_rotations absent absent absent
      (ex_settings True))) ''snapshot_fw.dump'' = None \<and>
   stdout (fst (RasterizeGaussians_forward ex_native_failing (ex_world (Some disk_error))
      ex_means3D ex_means2D ex_sh absent ex_opacities ex_scales ex_rotations absent absent absent
      (ex_settings True))) = []"
  by (simp add: RasterizeGaussians_forward_def call_native_def torch_save_def Let_def
      ex_native_failing_def ex_settings_def ex_world_def disk_error_def native_error_def)

text \<open>
  C4 (as amended). Forward passes the debug flag on to the native entry point as the last
  component of the argument tuple. If the native result does not depend on that
  component, then forward with debug enabled and forward with debug disabled, on the same
  inputs otherwise, hand back the same \<^verbatim>\<open>(color, radii, depth)\<close>, or both
  raise.
\<close>

theorem debug_flag_preserves_outputs:
  assumes "\<forall>a. C_rasterize_gaussians C (a @ [PBool True]) = C_rasterize_gaussians C (a @ [PBool False])"
  shows "forward_outputs (snd (RasterizeGaussians_forward C w means3D means2D sh colors_precomp
           opacities scales rotations cov3Ds_precomp camerapos camerarot
           (raster_settings\<lparr>debug := True\<rparr>))) =
         forward_outputs (snd (RasterizeGaussians_forward C w' means3D means2D sh colors_precomp
           opacities scales rotations cov3Ds_precomp camerapos camerarot
           (raster_settings\<lparr>debug := False\<rparr>)))"
proof -
  let ?on = "raster_settings\<lparr>debug := True\<rparr>" and ?off = "raster_settings\<lparr>debug := False\<rparr>"
  let ?a_on = "forward_args means3D sh colors_precomp opacities scales rotations cov3Ds_precomp
      camerapos ?on"
  let ?a_off = "forward_args means3D sh colors_precomp opacities scales rotations cov3Ds_precomp
      camerapos ?off"
  have "\<exists>a. ?a_on = a @ [PBool True] \<and> ?a_off = a @ [PBool False]"
    by (simp add: forward_args_def)
  with assms have same: "C_rasterize_gaussians C ?a_on = C_rasterize_gaussians C ?a_off"
    by metis
  show ?thesis
  proof (cases "C_rasterize_gaussians C ?a_off")
    case (Inl ex)
    with same have on: "C_rasterize_gaussians C ?a_on = Inl ex" by simp
    have d: "debug ?on" "\<not> debug ?off" by simp_all
    show ?thesis
      by (simp add: forward_native_fails_debug [OF d(1) on]
          forward_native_fails_nodebug [OF d(2) Inl] forward_outputs_def split: option.splits)
  next
    case (Inr res)
    obtain n color radii g b i depth where res: "res = (n, color, radii, g, b, i, depth)"
      by (metis prod_cases4)
    from Inr res same have
      off: "C_rasterize_gaussians C ?a_off = Inr (n, color, radii, g, b, i, depth)" and
      on: "C_rasterize_gaussians C ?a_on = Inr (n, color, radii, g, b, i, depth)"
      by simp_all
    show ?thesis
      by (simp add: forward_native_returns [OF on] forward_native_returns [OF off]
          forward_outputs_def)
  qed
qed

text \<open>A native extension that ignores its arguments, with debug on and off.\<close>

theorem debug_flag_preserves_outputs_witness:
  "(\<forall>a. C_rasterize_gaussians ex_native_ok (a @ [PBool True]) =
        C_rasterize_gaussians ex_native_ok (a @ [PBool False])) \<and>
   forward_outputs (snd (RasterizeGaussians_forward ex_native_ok (ex_world None) ex_means3D
      ex_means2D ex_sh absent ex_opacities ex_scales ex_rotations absent absent absent
      (ex_settings True))) = Some (tn 1, tn 2, tn 6) \<and>
   forward_outputs (snd (RasterizeGaussians_forward ex_native_ok (ex_world None) ex_means3D
      ex_means2D ex_sh absent ex_opacities ex_scales ex_rotations absent absent absent
      (ex_settings False))) = Some (tn 1, tn 2, tn 6)"
proof -
  have h: "\<forall>a. C_rasterize_gaussians ex_native_ok (a @ [PBool True]) =
        C_rasterize_gaussians ex_native_ok (a @ [PBool False])"
    by (simp add: ex_native_ok_def)
  have on: "ex_settings False\<lparr>debug := True\<rparr> = ex_settings True"
    and off: "ex_settings False\<lparr>debug := False\<rparr> = ex_settings False"
    by (simp_all add: ex_settings_def)
  have v: "forward_outputs (snd (RasterizeGaussians_forward ex_native_ok (ex_world None) ex_means3D
      ex_means2D ex_sh absent ex_opacities ex_scales ex_rotations absent absent absent
      (ex_settings False))) = Some (tn 1, tn 2, tn 6)"
    by (simp add: RasterizeGaussians_forward_def call_native_def Let_def ex_native_ok_def
        ex_settings_def forward_outputs_def)
  from debug_flag_preserves_outputs [OF h, of "ex_world None" ex_means3D ex_means2D ex_sh absent
      ex_opacities ex_scales ex_rotations absent absent absent "ex_settings False" "ex_world None"]
  show ?thesis
    using h v by (simp add: on off)
qed

text \<open>
  C4 as first stated makes no assumption on the native entry point. One that reads the
  flag it is given returns another image with debug on than with debug off.
\<close>

theorem debug_flag_changes_outputs_counterexample:
  "forward_outputs (snd (RasterizeGaussians_forward ex_native_flag (ex_world None) ex_means3D
      ex_means2D ex_sh absent ex_opacities ex_scales ex_rotations absent absent absent
      (ex_settings True))) = Some (tn 1, tn 2, tn 6) \<and>
   forward_outputs (snd (RasterizeGaussians_forward ex_native_flag (ex_world None) ex_means3D
      ex_means2D ex_sh absent ex_opacities ex_scales ex_rotations absent absent absent
      (ex_settings False))) = Some (tn 0, tn 2, tn 6) \<and>
   tn 1 \<noteq> tn 0"
  by (simp add: RasterizeGaussians_forward_def call_native_def Let_def ex_native_flag_def
      ex_settings_def forward_outputs_def forward_args_def tn_def)

text \<open>
  C5 (as amended). In debug mode, when the native call raises \<open>ex\<close>, what reaches the
  caller is \<open>ex\<close> itself if the snapshot file could be written, and the exception of
  the failed write otherwise; the write is not guarded. This holds for forward and for
  backward.
\<close>

theorem native_failure_in_debug_mode:
  fixes raster_settings :: GaussianRasterizationSettings and ctx :: ctx
  shows
    "(debug raster_settings \<and>
      C_rasterize_gaussians C (forward_args means3D sh colors_precomp opacities scales rotations
        cov3Ds_precomp camerapos raster_settings) = Inl ex \<longrightarrow>
        snd (RasterizeGaussians_forward C w means3D means2D sh colors_precomp opacities scales
          rotations cov3Ds_precomp camerapos camerarot raster_settings) =
        Inl (case write_fault w ''snapshot_fw.dump'' of None \<Rightarrow> ex | Some save_ex \<Rightarrow> save_ex)) \<and>
     (debug (ctx_raster_settings ctx) \<and>
      C_rasterize_gaussians_backward C (backward_args ctx grad_out_color grad_out_depth) = Inl ex' \<longrightarrow>
        snd (RasterizeGaussians_backward C w ctx grad_out_color grad_out_radii grad_out_depth) =
        Inl (case write_fault w ''snapshot_bw.dump'' of None \<Rightarrow> ex' | Some save_ex \<Rightarrow> save_ex))"
  by (simp add: forward_native_fails_debug backward_native_fails_debug split: option.splits)

text \<open>A failing native extension in debug mode, on a writable and on a read-only directory.\<close>

theorem native_failure_in_debug_mode_witness:
  "debug (ex_settings True) \<and> debug (ctx_raster_settings (ex_ctx True)) \<and>
   snd (RasterizeGaussians_forward ex_native_failing (ex_world None) ex_means3D ex_means2D ex_sh
      absent ex_opacities ex_scales ex_rotations absent absent absent (ex_settings True)) =
     Inl native_error \<and>
   snd (RasterizeGaussians_forward ex_native_failing (ex_world (Some disk_error)) ex_means3D
      ex_means2D ex_sh absent ex_opacities ex_scales ex_rotations absent absent absent
      (ex_settings True)) = Inl disk_error \<and>
   snd (RasterizeGaussians_backward ex_native_failing (ex_world None) (ex_ctx True)
      (tn 40) (tn 41) (tn 42)) = Inl native_error \<and>
   snd (RasterizeGaussians_backward ex_native_failing (ex_world (Some disk_error)) (ex_ctx True)
      (tn 40) (tn 41) (tn 42)) = Inl disk_error"
proof -
  have d: "debug (ex_settings True)" "debug (ctx_raster_settings (ex_ctx True))"
    by (simp_all add: ex_settings_def ex_ctx_def)
  have f: "write_fault (ex_world x) p = x" for x p
    by (simp add: ex_world_def)
  have n: "C_rasterize_gaussians ex_native_failing a = Inl native_error"
    "C_rasterize_gaussians_backward ex_native_failing a = Inl native_error" for a
    by (simp_all add: ex_native_failing_def)
  note t1 = native_failure_in_debug_mode [where raster_settings = "ex_settings True" and
      ctx = "ex_ctx True" and w = "ex_world None" and ex = native_error and ex' = native_error
      and C = ex_native_failing and means3D = ex_means3D and
      means2D = ex_means2D and sh = ex_sh and colors_precomp = absent and opacities = ex_opacities
      and scales = ex_scales and rotations = ex_rotations and cov3Ds_precomp = absent and
      camerapos = absent and camerarot = absent and grad_out_color = "tn 40" and
      grad_out_radii = "tn 41" and grad_out_depth = "tn 42"]
  note t2 = native_failure_in_debug_mode [where raster_settings = "ex_settings True" and
      ctx = "ex_ctx True" and w = "ex_world (Some disk_error)" and ex = native_error and
      ex' = native_error and C = ex_native_failing and means3D = ex_means3D and
      means2D = ex_means2D and sh = ex_sh and colors_precomp = absent and opacities = ex_opacities
      and scales = ex_scales and rotations = ex_rotations and cov3Ds_precomp = absent and
      camerapos = absent and camerarot = absent and grad_out_color = "tn 40" and
      grad_out_radii = "tn 41" and grad_out_depth = "tn 42"]
  from t1 t2 show ?thesis
    by (simp add: d f n)
qed

text \<open>
  C5 as first stated says the native exception is raised even when the snapshot cannot be
  persisted. On a read-only directory both backward and forward raise the write error
  instead.
\<close>

theorem snapshot_failure_masks_error_counterexample:
  "debug (ctx_raster_settings (ex_ctx True)) \<and>
   C_rasterize_gaussians_backward ex_native_failing (backward_args (ex_ctx True) (tn 40) (tn 42)) =
     Inl native_error \<and>
   write_fault (ex_world (Some disk_error)) ''snapshot_bw.dump'' = Some disk_error \<and>
   snd (RasterizeGaussians_backward ex_native_failing (ex_world (Some disk_error)) (ex_ctx True)
      (tn 40) (tn 41) (tn 42)) = Inl disk_error \<and>
   snd (RasterizeGaussians_forward ex_native_failing (ex_world (Some disk_error)) ex_means3D
      ex_means2D ex_sh absent ex_opacities ex_scales ex_rotations absent absent absent
      (ex_settings True)) = Inl disk_error \<and>
   disk_error \<noteq> native_error"
  by (simp add: RasterizeGaussians_backward_def RasterizeGaussians_forward_def call_native_def
      torch_save_def Let_def ex_native_failing_def ex_settings_def ex_ctx_def ex_world_def
      disk_error_def native_error_def)

text \<open>
  C6. Every forward invocation makes exactly one call into the native extension, to
  \<^verbatim>\<open>rasterize_gaussians\<close>, with the twenty arguments
  (bg, means3D, colors_precomp, opacities, scales, rotations, scale_modifier, cov_offset,
  cov3Ds_precomp, viewmatrix, projmatrix, tanfovx, tanfovy, image_height, image_width, sh,
  sh_degree, camerapos, prefiltered, debug) in this order. When the call returns
  (num_rendered, color, radii, geomBuffer, binningBuffer, imgBuffer, depth), forward
  returns \<^verbatim>\<open>(color, radii, depth)\<close> and keeps num_rendered, the settings and the
  thirteen saved values, the three buffers among them, in the context.
\<close>

theorem forward_native_call_tuple:
  fixes raster_settings :: GaussianRasterizationSettings
    and means3D sh colors_precomp opacities scales rotations cov3Ds_precomp camerapos :: pyval
  defines "args \<equiv>
     [PTensor (bg raster_settings), means3D, colors_precomp, opacities, scales, rotations,
      PFloat (scale_modifier raster_settings), PFloat (cov_offset raster_settings),
      cov3Ds_precomp, PTensor (viewmatrix raster_settings), PTensor (projmatrix raster_settings),
      PFloat (tanfovx raster_settings), PFloat (tanfovy raster_settings),
      PInt (image_height raster_settings), PInt (image_width raster_settings),
      sh, PInt (sh_degree raster_settings), camerapos,
      PBool (prefiltered raster_settings), PBool (debug raster_settings)]"
  shows "native_calls (fst (RasterizeGaussians_forward C w means3D means2D sh colors_precomp
            opacities scales rotations cov3Ds_precomp camerapos camerarot raster_settings)) =
         native_calls w @ [(''rasterize_gaussians'', args)] \<and>
         (C_rasterize_gaussians C args =
            Inr (num_rendered, color, radii, geomBuffer, binningBuffer, imgBuffer, depth) \<longrightarrow>
          snd (RasterizeGaussians_forward C w means3D means2D sh colors_precomp
            opacities scales rotations cov3Ds_precomp camerapos camerarot raster_settings) =
          Inr (\<lparr>ctx_raster_settings = raster_settings,
                ctx_num_rendered = num_rendered,
                saved_tensors =
                  (colors_precomp, means3D, scales, rotations, cov3Ds_precomp, PTensor radii, sh,
                   PTensor geomBuffer, PTensor binningBuffer, PTensor imgBuffer, camerapos,
                   camerarot, PTensor depth)\<rparr>,
               color, radii, depth))"
proof -
  have a: "args = forward_args means3D sh colors_precomp opacities scales rotations cov3Ds_precomp
             camerapos raster_settings"
    by (simp add: args_def forward_args_def)
  show ?thesis
    unfolding a by (simp add: forward_logs_call forward_native_returns)
qed

text \<open>The call logged and the context filled at a concrete forward invocation.\<close>

theorem forward_native_call_tuple_witness:
  "native_calls (fst (RasterizeGaussians_forward ex_native_ok (ex_world None) ex_means3D ex_means2D
       ex_sh absent ex_opacities ex_scales ex_rotations absent absent absent (ex_settings False))) =
     [(''rasterize_gaussians'',
       [PTensor (tn 20), ex_means3D, absent, ex_opacities, ex_scales, ex_rotations, PFloat 1,
        PFloat 0, absent, PTensor (tn 21), PTensor (tn 22), PFloat 1, PFloat 1, PInt 2, PInt 3,
        ex_sh, PInt 0, absent, PBool False, PBool False])] \<and>
   snd (RasterizeGaussians_forward ex_native_ok (ex_world None) ex_means3D ex_means2D
       ex_sh absent ex_opacities ex_scales ex_rotations absent absent absent (ex_settings False)) =
     Inr (\<lparr>ctx_raster_settings = ex_settings False, ctx_num_rendered = 7,
           saved_tensors =
             (absent, ex_means3D, ex_scales, ex_rotations, absent, PTensor (tn 2), ex_sh,
              PTensor (tn 3), PTensor (tn 4), PTensor (tn 5), absent, absent, PTensor (tn 6))\<rparr>,
          tn 1, tn 2, tn 6)"
  using forward_native_call_tuple [of ex_native_ok "ex_world None" ex_means3D ex_means2D ex_sh
      absent ex_opacities ex_scales ex_rotations absent absent absent "ex_settings False"
      7 "tn 1" "tn 2" "tn 3" "tn 4" "tn 5" "tn 6"]
  by (simp add: ex_native_ok_def ex_world_def ex_settings_def)

text \<open>
  C7. Every backward invocation makes exactly one call into the native extension, to
  \<^verbatim>\<open>rasterize_gaussians_backward\<close>, with the twenty-three arguments
  (bg, means3D, radii, colors_precomp, scales, rotations, scale_modifier, cov_offset,
  cov3Ds_precomp, viewmatrix, projmatrix, tanfovx, tanfovy, grad_out_color,
  grad_out_depth, sh, sh_degree, camerapos, geomBuffer, num_rendered, binningBuffer,
  imgBuffer, debug) in this order, each taken from the context (its settings, its
  num_rendered and its saved tuple) or from the incoming image and depth gradients. When
  the call returns gradients for (means2D, colors_precomp, opacities, means3D,
  cov3Ds_precomp, sh, scales, rotations, camerarot), backward returns them reordered as
  its \<^verbatim>\<open>grads\<close> tuple.
\<close>

theorem backward_native_call_tuple:
  fixes ctx :: ctx
    and means3D radii colors_precomp scales rotations cov3Ds_precomp sh camerapos geomBuffer
      binningBuffer imgBuffer :: pyval
    and grad_out_color grad_out_depth :: tensor
  assumes saved: "saved_tensors ctx =
     (colors_precomp, means3D, scales, rotations, cov3Ds_precomp, radii, sh, geomBuffer,
      binningBuffer, imgBuffer, camerapos, camerarot, depth)"
  defines "raster_settings \<equiv> ctx_raster_settings ctx"
  defines "args \<equiv>
     [PTensor (bg raster_settings), means3D, radii, colors_precomp, scales, rotations,
      PFloat (scale_modifier raster_settings), PFloat (cov_offset raster_settings),
      cov3Ds_precomp, PTensor (viewmatrix raster_settings), PTensor (projmatrix raster_settings),
      PFloat (tanfovx raster_settings), PFloat (tanfovy raster_settings),
      PTensor grad_out_color, PTensor grad_out_depth, sh, PInt (sh_degree raster_settings),
      camerapos, geomBuffer, PInt (ctx_num_rendered ctx), binningBuffer, imgBuffer,
      PBool (debug raster_settings)]"
  shows "native_calls (fst (RasterizeGaussians_backward C w ctx grad_out_color grad_out_radii
            grad_out_depth)) =
         native_calls w @ [(''rasterize_gaussians_backward'', args)] \<and>
         (C_rasterize_gaussians_backward C args =
            Inr (grad_means2D, grad_colors_precomp, grad_opacities, grad_means3D,
                 grad_cov3Ds_precomp, grad_sh, grad_scales, grad_rotations, grad_camerarot) \<longrightarrow>
          snd (RasterizeGaussians_backward C w ctx grad_out_color grad_out_radii grad_out_depth) =
          Inr [PTensor grad_means3D, PTensor grad_means2D, PTensor grad_sh,
               PTensor grad_colors_precomp, PTensor grad_opacities, PTensor grad_scales,
               PTensor grad_rotations, PTensor grad_cov3Ds_precomp, PNone,
               PTensor grad_camerarot, PNone])"
proof -
  have a: "args = backward_args ctx grad_out_color grad_out_depth"
    by (simp add: args_def raster_settings_def backward_args_def saved Let_def)
  show ?thesis
    unfolding a by (simp add: backward_logs_call backward_native_returns)
qed

text \<open>
  A concrete forward invocation, the context it leaves, and the call logged and the tuple
  returned by backward on that context.
\<close>

theorem backward_native_call_tuple_witness:
  "snd (RasterizeGaussians_forward ex_native_ok (ex_world None) ex_means3D ex_means2D ex_sh absent
       ex_opacities ex_scales ex_rotations absent absent absent (ex_settings False)) =
     Inr (ex_ctx False, tn 1, tn 2, tn 6) \<and>
   saved_tensors (ex_ctx False) =
     (absent, PTensor (tn 30), PTensor (tn 31), PTensor (tn 32), absent, PTensor (tn 2),
      PTensor (tn 33), PTensor (tn 3), PTensor (tn 4), PTensor (tn 5), absent, absent,
      PTensor (tn 6)) \<and>
   native_calls (fst (RasterizeGaussians_backward ex_native_ok (ex_world None) (ex_ctx False)
       (tn 40) (tn 41) (tn 42))) =
     [(''rasterize_gaussians_backward'',
       [PTensor (tn 20), PTensor (tn 30), PTensor (tn 2), absent, PTensor (tn 31), PTensor (tn 32),
        PFloat 1, PFloat 0, absent, PTensor (tn 21), PTensor (tn 22), PFloat 1, PFloat 1,
        PTensor (tn 40), PTensor (tn 42), PTensor (tn 33), PInt 0, absent, PTensor (tn 3),
        PInt 7, PTensor (tn 4), PTensor (tn 5), PBool False])] \<and>
   snd (RasterizeGaussians_backward ex_native_ok (ex_world None) (ex_ctx False)
       (tn 40) (tn 41) (tn 42)) =
     Inr [PTensor (tn 14), PTensor (tn 11), PTensor (tn 16), PTensor (tn 12), PTensor (tn 13),
          PTensor (tn 17), PTensor (tn 18), PTensor (tn 15), PNone, PTensor (tn 19), PNone]"
proof -
  have h: "saved_tensors (ex_ctx False) =
     (absent, PTensor (tn 30), PTensor (tn 31), PTensor (tn 32), absent, PTensor (tn 2),
      PTensor (tn 33), PTensor (tn 3), PTensor (tn 4), PTensor (tn 5), absent, absent,
      PTensor (tn 6))"
    by (simp add: ex_ctx_def absent_def)
  have f: "snd (RasterizeGaussians_forward ex_native_ok (ex_world None) ex_means3D ex_means2D ex_sh
       absent ex_opacities ex_scales ex_rotations absent absent absent (ex_settings False)) =
     Inr (ex_ctx False, tn 1, tn 2, tn 6)"
    by (simp add: RasterizeGaussians_forward_def call_native_def Let_def ex_native_ok_def
        ex_settings_def ex_ctx_def ex_means3D_def ex_sh_def ex_scales_def ex_rotations_def
        absent_def)
  from backward_native_call_tuple [OF h, of ex_native_ok "ex_world None" "tn 40" "tn 41" "tn 42"
      "tn 11" "tn 12" "tn 13" "tn 14" "tn 15" "tn 16" "tn 17" "tn 18" "tn 19"] h
  have "saved_tensors (ex_ctx False) =
     (absent, PTensor (tn 30), PTensor (tn 31), PTensor (tn 32), absent, PTensor (tn 2),
      PTensor (tn 33), PTensor (tn 3), PTensor (tn 4), PTensor (tn 5), absent, absent,
      PTensor (tn 6)) \<and>
   native_calls (fst (RasterizeGaussians_backward ex_native_ok (ex_world None) (ex_ctx False)
       (tn 40) (tn 41) (tn 42))) =
     [(''rasterize_gaussians_backward'',
       [PTensor (tn 20), PTensor (tn 30), PTensor (tn 2), absent, PTensor (tn 31), PTensor (tn 32),
        PFloat 1, PFloat 0, absent, PTensor (tn 21), PTensor (tn 22), PFloat 1, PFloat 1,
        PTensor (tn 40), PTensor (tn 42), PTensor (tn 33), PInt 0, absent, PTensor (tn 3),
        PInt 7, PTensor (tn 4), PTensor (tn 5), PBool False])] \<and>
   snd (RasterizeGaussians_backward ex_native_ok (ex_world None) (ex_ctx False)
       (tn 40) (tn 41) (tn 42)) =
     Inr [PTensor (tn 14), PTensor (tn 11), PTensor (tn 16), PTensor (tn 12), PTensor (tn 13),
          PTensor (tn 17), PTensor (tn 18), PTensor (tn 15), PNone, PTensor (tn 19), PNone]"
    by (simp add: ex_native_ok_def ex_world_def ex_settings_def ex_ctx_def)
  with f show ?thesis by (simp only: simp_thms)
qed

text \<open>
  C8. Backward ignores \<open>grad_out_radii\<close>: two invocations on the same context that
  differ in that argument only end in the same world, so the native backward call is
  logged with the same arguments, and return the same gradient tuple or raise the same
  exception.
\<close>

theorem backward_ignores_radii_gradient:
  "RasterizeGaussians_backward C w ctx grad_out_color grad_out_radii grad_out_depth =
   RasterizeGaussians_backward C w ctx grad_out_color grad_out_radii' grad_out_depth"
  by (simp add: RasterizeGaussians_backward_def)

text \<open>Two concrete invocations with different radii gradients.\<close>

theorem backward_ignores_radii_gradient_witness:
  "RasterizeGaussians_backward ex_native_ok (ex_world None) (ex_ctx False) (tn 40) (tn 41) (tn 42) =
   RasterizeGaussians_backward ex_native_ok (ex_world None) (ex_ctx False) (tn 40) (tn 99) (tn 42) \<and>
   tn 41 \<noteq> tn 99 \<and>
   native_calls (fst (RasterizeGaussians_backward ex_native_ok (ex_world None) (ex_ctx False)
      (tn 40) (tn 99) (tn 42))) =
     [(''rasterize_gaussians_backward'', backward_args (ex_ctx False) (tn 40) (tn 42))] \<and>
   snd (RasterizeGaussians_backward ex_native_ok (ex_world None) (ex_ctx False)
      (tn 40) (tn 99) (tn 42)) = Inr ex_grads"
  using backward_ignores_radii_gradient [of ex_native_ok "ex_world None" "ex_ctx False"
      "tn 40" "tn 41" "tn 42" "tn 99"]
  by (simp add: backward_logs_call, simp add: model_defs ex_defs)

text \<open>
  C9. A call of the facade that passes both validations is the call of
  \<^verbatim>\<open>rasterize_gaussians\<close> in which each of shs, colors_precomp, scales,
  rotations, cov3D_precomp, camerapos and camerarot is replaced by the empty tensor when
  it was omitted and passed on unchanged otherwise; none of the seven reaches the
  operator as \<open>None\<close>.
\<close>

theorem facade_substitutes_sentinels:
  assumes "\<not> ((shs = PNone \<and> colors_precomp = PNone) \<or> (shs \<noteq> PNone \<and> colors_precomp \<noteq> PNone))"
    and "\<not> (((scales = PNone \<or> rotations = PNone) \<and> cov3D_precomp = PNone) \<or>
            ((scales \<noteq> PNone \<or> rotations \<noteq> PNone) \<and> cov3D_precomp \<noteq> PNone))"
  shows "GaussianRasterizer_forward C raster_settings w means3D means2D opacities shs
           colors_precomp scales rotations cov3D_precomp camerapos camerarot =
         rasterize_gaussians C w means3D means2D (or_sentinel shs) (or_sentinel colors_precomp)
           opacities (or_sentinel scales) (or_sentinel rotations) (or_sentinel cov3D_precomp)
           (or_sentinel camerapos) (or_sentinel camerarot) raster_settings \<and>
         PNone \<notin> {or_sentinel shs, or_sentinel colors_precomp, or_sentinel scales,
                   or_sentinel rotations, or_sentinel cov3D_precomp, or_sentinel camerapos,
                   or_sentinel camerarot} \<and>
         or_sentinel PNone = PTensor torch_Tensor_empty \<and>
         (\<forall>v. v \<noteq> PNone \<longrightarrow> or_sentinel v = v)"
proof -
  have "GaussianRasterizer_forward C raster_settings w means3D means2D opacities shs
           colors_precomp scales rotations cov3D_precomp camerapos camerarot =
         rasterize_gaussians C w means3D means2D (or_sentinel shs) (or_sentinel colors_precomp)
           opacities (or_sentinel scales) (or_sentinel rotations) (or_sentinel cov3D_precomp)
           (or_sentinel camerapos) (or_sentinel camerarot) raster_settings"
    by (simp only: GaussianRasterizer_forward_def if_not_P [OF assms(1)] if_not_P [OF assms(2)]
        Let_def or_sentinel_def)
  moreover have "or_sentinel v \<noteq> PNone" for v
    by (simp add: or_sentinel_def)
  ultimately show ?thesis
    by (simp add: or_sentinel_def)
qed

text \<open>A valid call with spherical harmonics, scales and rotations, and the native call it leads to.\<close>

theorem facade_substitutes_sentinels_witness:
  "GaussianRasterizer_forward ex_native_ok (ex_settings False) (ex_world None)
     ex_means3D ex_means2D ex_opacities ex_sh PNone ex_scales ex_rotations PNone PNone PNone =
   rasterize_gaussians ex_native_ok (ex_world None) ex_means3D ex_means2D ex_sh absent
     ex_opacities ex_scales ex_rotations absent absent absent (ex_settings False) \<and>
   absent = PTensor torch_Tensor_empty \<and>
   native_calls (fst (GaussianRasterizer_forward ex_native_ok (ex_settings False) (ex_world None)
     ex_means3D ex_means2D ex_opacities ex_sh PNone ex_scales ex_rotations PNone PNone PNone)) =
     [(''rasterize_gaussians'',
       [PTensor (tn 20), ex_means3D, absent, ex_opacities, ex_scales, ex_rotations, PFloat 1,
        PFloat 0, absent, PTensor (tn 21), PTensor (tn 22), PFloat 1, PFloat 1, PInt 2, PInt 3,
        ex_sh, PInt 0, absent, PBool False, PBool False])]"
proof -
  have h1: "\<not> ((ex_sh = PNone \<and> PNone = PNone) \<or> (ex_sh \<noteq> PNone \<and> PNone \<noteq> PNone))"
    by (simp add: ex_sh_def)
  have h2: "\<not> (((ex_scales = PNone \<or> ex_rotations = PNone) \<and> PNone = PNone) \<or>
            ((ex_scales \<noteq> PNone \<or> ex_rotations \<noteq> PNone) \<and> PNone \<noteq> PNone))"
    by (simp add: ex_scales_def ex_rotations_def)
  have s: "or_sentinel ex_sh = ex_sh" "or_sentinel ex_scales = ex_scales"
    "or_sentinel ex_rotations = ex_rotations" "or_sentinel PNone = absent"
    by (simp_all add: or_sentinel_def ex_sh_def ex_scales_def ex_rotations_def absent_def)
  from facade_substitutes_sentinels [OF h1 h2, of ex_native_ok "ex_settings False" "ex_world None"
      ex_means3D ex_means2D ex_opacities PNone PNone]
  have "GaussianRasterizer_forward ex_native_ok (ex_settings False) (ex_world None)
     ex_means3D ex_means2D ex_opacities ex_sh PNone ex_scales ex_rotations PNone PNone PNone =
   rasterize_gaussians ex_native_ok (ex_world None) ex_means3D ex_means2D ex_sh absent
     ex_opacities ex_scales ex_rotations absent absent absent (ex_settings False)"
    by (simp only: s)
  then show ?thesis
    by (simp add: rasterize_gaussians_def forward_logs_call forward_args_def absent_def
        ex_world_def ex_settings_def)
qed

text \<open>
  C10 (as amended). A call of the facade that supplies exactly one of \<open>scales\<close> and
  \<open>rotations\<close> is rejected before any native call, whether or not
  \<open>cov3D_precomp\<close> is supplied: with the covariance contract violation when exactly one
  of \<open>shs\<close> and \<open>colors_precomp\<close> is supplied, and with the colour contract
  violation, whose check runs first, otherwise.
\<close>

theorem partial_scale_rotation_rejected:
  assumes "(scales = PNone) \<noteq> (rotations = PNone)"
  shows "GaussianRasterizer_forward C raster_settings w means3D means2D opacities shs colors_precomp
        scales rotations cov3D_precomp camerapos camerarot =
      (w, Inl (if (shs = PNone \<and> colors_precomp = PNone) \<or> (shs \<noteq> PNone \<and> colors_precomp \<noteq> PNone)
               then color_contract_violation else covariance_contract_violation))"
  using assms by (auto simp: GaussianRasterizer_forward_def)

text \<open>Scales without rotations, with and without a covariance, and rotations without scales.\<close>

theorem partial_scale_rotation_rejected_witness:
  "(ex_scales = PNone) \<noteq> (PNone = PNone) \<and>
   GaussianRasterizer_forward ex_native_ok (ex_settings False) (ex_world None)
     ex_means3D ex_means2D ex_opacities ex_sh PNone ex_scales PNone PNone PNone PNone
     = (ex_world None, Inl covariance_contract_violation) \<and>
   GaussianRasterizer_forward ex_native_ok (ex_settings False) (ex_world None)
     ex_means3D ex_means2D ex_opacities ex_sh PNone ex_scales PNone ex_cov3D PNone PNone
     = (ex_world None, Inl covariance_contract_violation) \<and>
   GaussianRasterizer_forward ex_native_ok (ex_settings False) (ex_world None)
     ex_means3D ex_means2D ex_opacities PNone ex_colors PNone ex_rotations ex_cov3D PNone PNone
     = (ex_world None, Inl covariance_contract_violation)"
proof -
  have h1: "(ex_scales = PNone) \<noteq> (PNone = PNone)" by (simp add: ex_scales_def)
  have h2: "(PNone = PNone) \<noteq> (ex_rotations = PNone)" by (simp add: ex_rotations_def)
  from partial_scale_rotation_rejected [OF h1, of ex_native_ok "ex_settings False" "ex_world None"
      ex_means3D ex_means2D ex_opacities ex_sh PNone PNone PNone PNone]
    partial_scale_rotation_rejected [OF h1, of ex_native_ok "ex_settings False" "ex_world None"
      ex_means3D ex_means2D ex_opacities ex_sh PNone ex_cov3D PNone PNone]
    partial_scale_rotation_rejected [OF h2, of ex_native_ok "ex_settings False" "ex_world None"
      ex_means3D ex_means2D ex_opacities PNone ex_colors ex_cov3D PNone PNone]
    h1
  show ?thesis by (simp add: ex_sh_def ex_colors_def)
qed

text \<open>
  C10 as first stated expects the covariance violation on every such call. With neither
  \<open>shs\<close> nor \<open>colors_precomp\<close> supplied, the colour violation is raised instead.
\<close>

theorem partial_scale_rotation_counterexample:
  "(ex_scales = PNone) \<noteq> (PNone = PNone) \<and>
   GaussianRasterizer_forward ex_native_ok (ex_settings False) (ex_world None)
     ex_means3D ex_means2D ex_opacities PNone PNone ex_scales PNone PNone PNone PNone
     = (ex_world None, Inl color_contract_violation) \<and>
   color_contract_violation \<noteq> covariance_contract_violation"
  by (simp add: GaussianRasterizer_forward_def ex_scales_def color_contract_violation_def
      covariance_contract_violation_def)

end
